theory Spec2Isabelle
  imports Main "HOL-Library.Multiset"
begin

section \<open>News Genie Agent: the article store, its enrichment pipeline and its queries\<close>

text \<open>
  A shallow embedding of \<^verbatim>\<open>src/streamlit_app.py\<close>: the \<^verbatim>\<open>NewsArticle\<close> dataclass, the
  \<^verbatim>\<open>NewsGenieAgent\<close> class and its methods. Python text is a \<open>string\<close> in which every
  \<open>char\<close> stands for one code point below 256. Python integers are \<open>int\<close>. The agent
  object is a record that every method takes and, where it mutates, returns.
\<close>

subsection \<open>Python built-ins used by the agent\<close>

text \<open>
  \<^verbatim>\<open>str.lower()\<close>: on code points below 256 the upper-case letters are \<open>A..Z\<close>
  (65..90) and 192..222 without the multiplication sign 215; each moves up by 32.
\<close>

definition lower_char :: "char \<Rightarrow> char" where
  "lower_char c =
     (let n = (of_char c :: nat)
      in if (65 \<le> n \<and> n \<le> 90) \<or> (192 \<le> n \<and> n \<le> 214) \<or> (216 \<le> n \<and> n \<le> 222)
         then char_of (n + 32) else c)"

definition lower :: "string \<Rightarrow> string" where
  "lower s = map lower_char s"

text \<open>
  \<^verbatim>\<open>str.isspace()\<close> on one code point, as \<^verbatim>\<open>str.strip()\<close> uses it: 9..13, 28..32,
  133 and 160.
\<close>

definition isspace :: "char \<Rightarrow> bool" where
  "isspace c =
     (let n = (of_char c :: nat)
      in (9 \<le> n \<and> n \<le> 13) \<or> (28 \<le> n \<and> n \<le> 32) \<or> n = 133 \<or> n = 160)"

definition strip :: "string \<Rightarrow> string" where
  "strip s = rev (dropWhile isspace (rev (dropWhile isspace s)))"

text \<open>
  \<^verbatim>\<open>s.split(sep)\<close> for a one-character separator: the pieces between the
  separators, one more piece than there are separators.
\<close>

fun str_split :: "char \<Rightarrow> string \<Rightarrow> string list" where
  "str_split sep [] = [[]]"
| "str_split sep (c # cs) =
     (if c = sep then [] # str_split sep cs
      else (case str_split sep cs of
              [] \<Rightarrow> [[c]]
            | p # ps \<Rightarrow> (c # p) # ps))"

text \<open>\<^verbatim>\<open>k in text\<close> on strings: \<open>k\<close> occurs in \<open>text\<close> as a contiguous substring.\<close>

fun startswith :: "string \<Rightarrow> string \<Rightarrow> bool" where
  "startswith [] t = True"
| "startswith (k # ks) [] = False"
| "startswith (k # ks) (c # cs) = (k = c \<and> startswith ks cs)"

fun str_in :: "string \<Rightarrow> string \<Rightarrow> bool" where
  "str_in k [] = (k = [])"
| "str_in k (c # cs) = (startswith k (c # cs) \<or> str_in k cs)"

text \<open>
  \<^verbatim>\<open>xs[:n]\<close>: a negative \<open>n\<close> counts from the end, and a stop before the start
  gives the empty list.
\<close>

definition slice_to :: "'a list \<Rightarrow> int \<Rightarrow> 'a list" where
  "slice_to xs n =
     (if 0 \<le> n then take (nat n) xs else take (nat (int (length xs) + n)) xs)"

text \<open>\<^verbatim>\<open>str(i)\<close> for a non-negative integer: its decimal digits.\<close>

fun str_nat :: "nat \<Rightarrow> string" where
  "str_nat n =
     (if n < 10 then [char_of (48 + n)]
      else str_nat (n div 10) @ [char_of (48 + n mod 10)])"

text \<open>
  The regular expression \<^verbatim>\<open>\w\<close> on one code point below 256: digits, letters, the
  underscore, and the letters and numeric signs of the upper half.
\<close>

definition is_word_char :: "char \<Rightarrow> bool" where
  "is_word_char c =
     (let n = (of_char c :: nat)
      in (48 \<le> n \<and> n \<le> 57) \<or> (65 \<le> n \<and> n \<le> 90) \<or> n = 95 \<or> (97 \<le> n \<and> n \<le> 122)
         \<or> n = 170 \<or> n = 178 \<or> n = 179 \<or> n = 181 \<or> n = 185 \<or> n = 186
         \<or> (188 \<le> n \<and> n \<le> 190) \<or> (192 \<le> n \<and> n \<le> 214) \<or> (216 \<le> n \<and> n \<le> 246)
         \<or> 248 \<le> n)"

text \<open>
  \<^verbatim>\<open>re.findall(r'\b\w+\b', text)\<close>: the maximal runs of word characters, from left
  to right.
\<close>

function findall_words :: "string \<Rightarrow> string list" where
  "findall_words [] = []"
| "findall_words (c # cs) =
     (if is_word_char c
      then (c # takeWhile is_word_char cs) # findall_words (dropWhile is_word_char cs)
      else findall_words cs)"
  by pat_completeness auto
termination
  by (relation "measure length") (auto simp: length_dropWhile_le less_Suc_eq_le)

text \<open>
  A \<^verbatim>\<open>dict\<close> keeps its keys in insertion order: an association list. \<open>dict_incr\<close> is
  \<^verbatim>\<open>d[k] += 1\<close> on a \<^verbatim>\<open>defaultdict(int)\<close> (a missing key starts at 0 and is
  appended), and on a plain \<^verbatim>\<open>dict\<close> that holds the key.
\<close>

type_synonym counter = "(string \<times> int) list"

fun dict_incr :: "string \<Rightarrow> counter \<Rightarrow> counter" where
  "dict_incr k [] = [(k, 1)]"
| "dict_incr k ((k', v) # d) = (if k = k' then (k', v + 1) # d else (k', v) # dict_incr k d)"

definition dict_get :: "counter \<Rightarrow> string \<Rightarrow> int" where
  "dict_get d k = (case map_of d k of None \<Rightarrow> 0 | Some v \<Rightarrow> v)"

definition dict_values_sum :: "counter \<Rightarrow> int" where
  "dict_values_sum d = sum_list (map snd d)"

subsection \<open>The data model\<close>

text \<open>
  A \<^verbatim>\<open>datetime\<close> is naive (\<^verbatim>\<open>datetime.now()\<close>: local wall-clock time, no zone) or
  aware (parsed with a UTC offset: a point on the time line), in microseconds. Python
  orders two naive values and two aware values, and raises \<^verbatim>\<open>TypeError\<close> when asked
  to compare a naive with an aware one.
\<close>

datatype datetime = Naive int | Aware int

fun instant :: "datetime \<Rightarrow> int" where
  "instant (Naive t) = t"
| "instant (Aware t) = t"

fun is_aware :: "datetime \<Rightarrow> bool" where
  "is_aware (Naive t) = False"
| "is_aware (Aware t) = True"

datatype error = TypeError

record article =
  title :: string
  description :: string
  url :: string
  source :: string
  published_at :: datetime
  category :: string
  sentiment :: string
  summary :: string
  keywords' :: "string list"

record preferences =
  pref_categories :: "string list"
  pref_keywords :: "string list"
  pref_sources :: "string list"

record statistics =
  total_articles :: int
  by_category :: counter
  by_sentiment :: counter
  by_source :: counter

record agent =
  api_key :: string
  articles :: "article list"
  user_preferences :: preferences
  statistics :: statistics

text \<open>The constructor: \<^verbatim>\<open>__init__(api_key=None)\<close>, with \<^verbatim>\<open>api_key or "demo"\<close>.\<close>

definition empty_statistics :: statistics where
  "empty_statistics =
     \<lparr>total_articles = 0, by_category = [], by_sentiment = [], by_source = []\<rparr>"

definition init :: "string option \<Rightarrow> agent" where
  "init key =
     \<lparr>api_key = (case key of None \<Rightarrow> ''demo'' | Some k \<Rightarrow> if k = [] then ''demo'' else k),
      articles = [],
      user_preferences = \<lparr>pref_categories = [], pref_keywords = [], pref_sources = []\<rparr>,
      statistics = empty_statistics\<rparr>"

subsection \<open>The sample generator\<close>

record sample =
  sample_title :: string
  sample_description :: string
  sample_category :: string
  sample_source :: string

definition samples :: "sample list" where
  "samples =
   [\<lparr>sample_title = ''AI Revolution: New Breakthrough in Machine Learning'',
     sample_description = ''Researchers announce major advancement in neural networks that could transform the industry.'',
     sample_category = ''Technology'', sample_source = ''Tech News''\<rparr>,
    \<lparr>sample_title = ''Stock Market Reaches New Heights Amid Economic Recovery'',
     sample_description = ''Major indices show significant gains as investors show confidence in economic outlook.'',
     sample_category = ''Business'', sample_source = ''Financial Times''\<rparr>,
    \<lparr>sample_title = ''Championship Game Ends in Dramatic Fashion'',
     sample_description = ''Thrilling finale sees underdog team clinch victory in final seconds of play.'',
     sample_category = ''Sports'', sample_source = ''Sports Daily''\<rparr>,
    \<lparr>sample_title = ''New Health Study Reveals Benefits of Mediterranean Diet'',
     sample_description = ''Long-term research confirms positive effects on heart health and longevity.'',
     sample_category = ''Health'', sample_source = ''Health Journal''\<rparr>,
    \<lparr>sample_title = ''Climate Scientists Report Concerning Trends in Global Temperatures'',
     sample_description = ''Latest data shows acceleration in warming patterns across multiple regions.'',
     sample_category = ''Science'', sample_source = ''Science Today''\<rparr>,
    \<lparr>sample_title = ''Major Policy Changes Announced by Government Officials'',
     sample_description = ''New legislation aims to address key concerns raised by citizens nationwide.'',
     sample_category = ''Politics'', sample_source = ''Political Review''\<rparr>,
    \<lparr>sample_title = ''Blockbuster Film Breaks Box Office Records'',
     sample_description = ''Latest release exceeds expectations with record-breaking opening weekend.'',
     sample_category = ''Entertainment'', sample_source = ''Entertainment Weekly''\<rparr>,
    \<lparr>sample_title = ''Tech Giant Unveils Revolutionary New Product'',
     sample_description = ''Company announces innovative device that promises to change how we interact with technology.'',
     sample_category = ''Technology'', sample_source = ''Tech Insider''\<rparr>,
    \<lparr>sample_title = ''Small Business Growth Surges in Rural Areas'',
     sample_description = ''Entrepreneurial activity shows significant increase outside major metropolitan regions.'',
     sample_category = ''Business'', sample_source = ''Business Week''\<rparr>,
    \<lparr>sample_title = ''Olympic Athletes Prepare for Upcoming Games'',
     sample_description = ''Training intensifies as competitors gear up for international competition.'',
     sample_category = ''Sports'', sample_source = ''Olympic News''\<rparr>]"

text \<open>
  The article built in one pass of the loop of \<^verbatim>\<open>_generate_sample_news\<close>, at index
  \<open>i\<close> of \<^verbatim>\<open>samples * 3\<close>. \<open>now i\<close> is what \<^verbatim>\<open>datetime.now()\<close> reads in that pass;
  \<^verbatim>\<open>timedelta(hours=i)\<close> is \<open>i\<close> times 3600000000 microseconds. The dataclass defaults
  fill the derived fields.
\<close>

definition sample_article :: "(nat \<Rightarrow> int) \<Rightarrow> nat \<Rightarrow> sample \<Rightarrow> article" where
  "sample_article now i smp =
     \<lparr>title = sample_title smp @ '' - Update #'' @ str_nat (i div length samples + 1),
      description = sample_description smp,
      url = ''https://example.com/article/'' @ str_nat i,
      source = sample_source smp,
      published_at = Naive (now i - int i * 3600000000),
      category = sample_category smp,
      sentiment = ''neutral'',
      summary = [],
      keywords' = []\<rparr>"

text \<open>
  The loop over \<^verbatim>\<open>enumerate(samples * 3)\<close>: \<^verbatim>\<open>break\<close> once \<open>cnt\<close> articles are
  collected, \<^verbatim>\<open>continue\<close> on a sample of another category when a category is given.
\<close>

fun sample_loop ::
  "(nat \<Rightarrow> int) \<Rightarrow> string \<Rightarrow> int \<Rightarrow> (nat \<times> sample) list \<Rightarrow> article list \<Rightarrow> article list" where
  "sample_loop now cat cnt [] acc = acc"
| "sample_loop now cat cnt ((i, smp) # rest) acc =
     (if cnt \<le> int (length acc) then acc
      else if cat \<noteq> [] \<and> sample_category smp \<noteq> cat then sample_loop now cat cnt rest acc
      else sample_loop now cat cnt rest (acc @ [sample_article now i smp]))"

definition generate_sample_news :: "(nat \<Rightarrow> int) \<Rightarrow> string \<Rightarrow> int \<Rightarrow> article list" where
  "generate_sample_news now cat cnt =
     slice_to (sample_loop now cat cnt (enumerate 0 (concat (replicate 3 samples))) []) cnt"

subsection \<open>The enrichment pipeline\<close>

definition SENTIMENT_KEYWORDS :: "(string \<times> string list) list" where
  "SENTIMENT_KEYWORDS =
   [(''positive'', [''success'', ''growth'', ''win'', ''breakthrough'', ''achievement'',
                    ''innovation'', ''improve'', ''gain'', ''rise'', ''profit'']),
    (''negative'', [''fail'', ''crisis'', ''decline'', ''loss'', ''problem'', ''concern'',
                    ''risk'', ''threat'', ''drop'', ''controversy'']),
    (''neutral'', [''report'', ''announce'', ''state'', ''update'', ''change'', ''develop''])]"

text \<open>
  \<^verbatim>\<open>_analyze_sentiment\<close>: the two nested loops add one to the score of a sentiment
  for each of its keywords that is found in the text.
\<close>

definition score_keywords :: "string \<Rightarrow> string \<Rightarrow> string list \<Rightarrow> counter \<Rightarrow> counter" where
  "score_keywords text sent kws scores =
     fold (\<lambda>keyword sc. if str_in keyword text then dict_incr sent sc else sc) kws scores"

definition analyze_sentiment :: "article \<Rightarrow> string" where
  "analyze_sentiment a =
     (let text = lower (title a @ '' '' @ description a);
          scores = fold (\<lambda>(sent, kws) sc. score_keywords text sent kws sc) SENTIMENT_KEYWORDS
                     [(''positive'', 0), (''negative'', 0), (''neutral'', 0)]
      in if dict_get scores ''negative'' < dict_get scores ''positive'' then ''positive''
         else if dict_get scores ''positive'' < dict_get scores ''negative'' then ''negative''
         else ''neutral'')"

text \<open>
  \<^verbatim>\<open>_generate_summary\<close>. \<^verbatim>\<open>sentences[0]\<close> is the head of the split, which is never
  empty (\<open>str_split_not_Nil\<close> below).
\<close>

definition generate_summary :: "article \<Rightarrow> string" where
  "generate_summary a =
     (if description a = [] then title a
      else let sentences = str_split (CHR ''.'') (description a);
               summ = strip (hd sentences) @ ''.''
           in if 20 < length summ then summ else take 100 (description a) @ ''...'')"

text \<open>
  \<^verbatim>\<open>_extract_keywords\<close>. \<^verbatim>\<open>list(set(keywords))\<close> lists the distinct tokens in the
  iteration order of a hash set, which the program does not fix: the order is the
  parameter \<open>set_order\<close>, and \<open>set_iteration\<close> says what every such order satisfies.
\<close>

definition common_words :: "string set" where
  "common_words = {''the'', ''a'', ''an'', ''and'', ''or'', ''but'', ''in'', ''on'', ''at'',
                   ''to'', ''for'', ''of'', ''with'', ''by'', ''from'', ''as'', ''is'', ''was''}"

definition set_iteration :: "(string list \<Rightarrow> string list) \<Rightarrow> bool" where
  "set_iteration set_order = (\<forall>ws. distinct (set_order ws) \<and> set (set_order ws) = set ws)"

definition extract_keywords :: "(string list \<Rightarrow> string list) \<Rightarrow> article \<Rightarrow> string list" where
  "extract_keywords set_order a =
     (let text = lower (title a @ '' '' @ description a);
          words = findall_words text;
          kws = filter (\<lambda>w. 4 < length w \<and> w \<notin> common_words) words
      in take 5 (set_order kws))"

subsection \<open>Fetching\<close>

text \<open>
  A \<^verbatim>\<open>NewsArticle\<close> as it stands in the list that \<^verbatim>\<open>fetch_news\<close> processes: the six
  fields the constructor call sets, the derived fields still at their defaults.
  \<^verbatim>\<open>_fetch_from_api\<close> builds it with \<^verbatim>\<open>description=item.get("description", "")\<close>, which
  is \<^verbatim>\<open>None\<close> when the response holds \<^verbatim>\<open>"description": null\<close>: the description is
  optional here. The title is a non-empty string (the \<^verbatim>\<open>if\<close> of line 138 sees to it),
  and the publish time is a \<^verbatim>\<open>datetime\<close> (\<^verbatim>\<open>_parse_date\<close>).
\<close>

record new_article =
  new_title :: string
  new_description :: "string option"
  new_url :: string
  new_source :: string
  new_published_at :: datetime
  new_category :: string

text \<open>A sample article, whose description is a string, as an element of that list.\<close>

definition constructed :: "article \<Rightarrow> new_article" where
  "constructed a =
     \<lparr>new_title = title a, new_description = Some (description a), new_url = url a,
      new_source = source a, new_published_at = published_at a, new_category = category a\<rparr>"

text \<open>The article once its description is known to be the string \<open>d\<close>.\<close>

definition described :: "new_article \<Rightarrow> string \<Rightarrow> article" where
  "described n d =
     \<lparr>title = new_title n, description = d, url = new_url n, source = new_source n,
      published_at = new_published_at n, category = new_category n,
      sentiment = ''neutral'', summary = [], keywords' = []\<rparr>"

text \<open>
  What a call of \<^verbatim>\<open>fetch_news\<close> meets outside the program: \<open>fetch_from_api\<close> is the
  outcome of \<^verbatim>\<open>_fetch_from_api\<close> (\<open>None\<close> when it raises, else the list it returns),
  \<open>now\<close> the clock read in each pass of the sample loop, \<open>set_order\<close> the iteration
  order of sets.
\<close>

record world =
  fetch_from_api :: "string \<Rightarrow> string \<Rightarrow> int \<Rightarrow> new_article list option"
  now :: "nat \<Rightarrow> int"
  set_order :: "string list \<Rightarrow> string list"

text \<open>
  The three assignments in the body of the loop \<^verbatim>\<open>for article in articles\<close>, on an
  article whose description is a string.
\<close>

definition enrich :: "(string list \<Rightarrow> string list) \<Rightarrow> article \<Rightarrow> article" where
  "enrich order a =
     (let a = a\<lparr>sentiment := analyze_sentiment a\<rparr>;
          a = a\<lparr>summary := generate_summary a\<rparr>;
          a = a\<lparr>keywords' := extract_keywords order a\<rparr>
      in a)"

definition count_article :: "article \<Rightarrow> statistics \<Rightarrow> statistics" where
  "count_article a st =
     st\<lparr>total_articles := total_articles st + 1,
        by_category := dict_incr (category a) (by_category st),
        by_sentiment := dict_incr (sentiment a) (by_sentiment st),
        by_source := dict_incr (source a) (by_source st)\<rparr>"

text \<open>
  The loop. On an article without description the first statement of the body,
  \<^verbatim>\<open>_analyze_sentiment\<close>, evaluates \<^verbatim>\<open>article.title + " " + article.description\<close> and
  raises \<^verbatim>\<open>TypeError\<close>: the loop ends there, with the counters as the earlier passes
  left them. The loop returns the processed articles or the exception, and the counters.
\<close>

fun process_articles ::
  "(string list \<Rightarrow> string list) \<Rightarrow> new_article list \<Rightarrow> statistics
     \<Rightarrow> (error + article list) \<times> statistics" where
  "process_articles order [] st = (Inr [], st)"
| "process_articles order (n # rest) st =
     (case new_description n of
        None \<Rightarrow> (Inl TypeError, st)
      | Some d \<Rightarrow>
          (let a' = enrich order (described n d);
               (r, st') = process_articles order rest (count_article a' st)
           in (case r of Inl e \<Rightarrow> Inl e | Inr rest' \<Rightarrow> Inr (a' # rest'), st')))"

text \<open>
  \<^verbatim>\<open>fetch_news\<close> returns the processed articles, or raises out of the loop (which is
  not inside the \<^verbatim>\<open>try\<close>); in both cases the agent is returned as the call leaves it.
  The counters are updated inside the loop, the store by \<^verbatim>\<open>self.articles.extend\<close> after
  it: a call that raises has updated the counters and not the store.
\<close>

definition fetch_news ::
  "world \<Rightarrow> agent \<Rightarrow> string \<Rightarrow> string \<Rightarrow> int \<Rightarrow> (error + article list) \<times> agent" where
  "fetch_news w s query cat max_results =
     (let fetched =
            (if api_key s \<noteq> [] \<and> api_key s \<noteq> ''demo''
             then (case fetch_from_api w query cat max_results of None \<Rightarrow> [] | Some xs \<Rightarrow> xs)
             else []);
          fetched =
            (if fetched = [] then map constructed (generate_sample_news (now w) cat max_results)
             else fetched);
          (r, st) = process_articles (set_order w) fetched (statistics s)
      in (case r of
            Inl e \<Rightarrow> (Inl e, s\<lparr>statistics := st\<rparr>)
          | Inr enriched \<Rightarrow>
              (Inr enriched, s\<lparr>articles := articles s @ enriched, statistics := st\<rparr>)))"

subsection \<open>Preferences, queries and clearing\<close>

text \<open>
  An optional list argument is \<open>None\<close> when the caller omits it. The test
  \<^verbatim>\<open>if categories:\<close> holds for a non-empty list only.
\<close>

fun truthy :: "string list option \<Rightarrow> bool" where
  "truthy None = False"
| "truthy (Some xs) = (xs \<noteq> [])"

definition set_user_preferences ::
  "agent \<Rightarrow> string list option \<Rightarrow> string list option \<Rightarrow> string list option \<Rightarrow> agent" where
  "set_user_preferences s cats kws srcs =
     (let p = user_preferences s;
          p = (if truthy cats then p\<lparr>pref_categories := the cats\<rparr> else p);
          p = (if truthy kws then p\<lparr>pref_keywords := the kws\<rparr> else p);
          p = (if truthy srcs then p\<lparr>pref_sources := the srcs\<rparr> else p)
      in s\<lparr>user_preferences := p\<rparr>)"

text \<open>
  \<^verbatim>\<open>filtered.sort(key=lambda x: x.published_at, reverse=True)\<close>: a stable sort,
  descending (the list reversed, sorted ascending and stably, reversed again). Sorting a
  list that holds a naive and an aware time has to compare one with the other, and
  raises; the order such an interrupted sort leaves the list in is not modelled.
\<close>

definition newest_first :: "article list \<Rightarrow> article list" where
  "newest_first xs = rev (sort_key (\<lambda>a. instant (published_at a)) (rev xs))"

definition mixed_times :: "article list \<Rightarrow> bool" where
  "mixed_times xs =
     (list_ex (\<lambda>a. is_aware (published_at a)) xs \<and> list_ex (\<lambda>a. \<not> is_aware (published_at a)) xs)"

definition sort_reverse :: "article list \<Rightarrow> error + article list" where
  "sort_reverse xs = (if mixed_times xs then Inl TypeError else Inr (newest_first xs))"

text \<open>
  In \<^verbatim>\<open>get_personalized_news\<close> the variable \<^verbatim>\<open>filtered\<close> is first bound to the
  list object \<^verbatim>\<open>self.articles\<close> itself; each list comprehension binds it to a new list.
  \<^verbatim>\<open>sort\<close> works in place, on the object the variable is bound to at that point.
\<close>

datatype listref = Agent_articles | New_list "article list"

fun deref :: "agent \<Rightarrow> listref \<Rightarrow> article list" where
  "deref s Agent_articles = articles s"
| "deref s (New_list xs) = xs"

fun assign :: "agent \<Rightarrow> listref \<Rightarrow> article list \<Rightarrow> agent" where
  "assign s Agent_articles xs = s\<lparr>articles := xs\<rparr>"
| "assign s (New_list old) xs = s"

definition get_personalized_news :: "agent \<Rightarrow> int \<Rightarrow> error + article list \<times> agent" where
  "get_personalized_news s lim =
     (let prefs = user_preferences s;
          filtered = Agent_articles;
          filtered =
            (if pref_categories prefs \<noteq> []
             then New_list (filter (\<lambda>a. category a \<in> set (pref_categories prefs)) (deref s filtered))
             else filtered);
          filtered =
            (if pref_keywords prefs \<noteq> []
             then New_list (filter (\<lambda>a. list_ex (\<lambda>k. str_in k (lower (title a)) \<or>
                                                  str_in k (lower (description a)))
                                          (pref_keywords prefs)) (deref s filtered))
             else filtered);
          filtered =
            (if pref_sources prefs \<noteq> []
             then New_list (filter (\<lambda>a. source a \<in> set (pref_sources prefs)) (deref s filtered))
             else filtered)
      in case sort_reverse (deref s filtered) of
           Inl e \<Rightarrow> Inl e
         | Inr sorted_list \<Rightarrow> Inr (slice_to sorted_list lim, assign s filtered sorted_list))"

definition get_articles_by_category :: "agent \<Rightarrow> string \<Rightarrow> article list" where
  "get_articles_by_category s cat = filter (\<lambda>a. category a = cat) (articles s)"

definition get_articles_by_sentiment :: "agent \<Rightarrow> string \<Rightarrow> article list" where
  "get_articles_by_sentiment s sent = filter (\<lambda>a. sentiment a = sent) (articles s)"

definition search_articles :: "agent \<Rightarrow> string \<Rightarrow> article list" where
  "search_articles s query =
     (let query = lower query
      in filter (\<lambda>a. str_in query (lower (title a)) \<or> str_in query (lower (description a)))
           (articles s))"

text \<open>The dictionary that \<^verbatim>\<open>get_statistics\<close> returns: the four counters and the preferences.\<close>

record snapshot = statistics +
  shown_preferences :: preferences

definition get_statistics :: "agent \<Rightarrow> snapshot" where
  "get_statistics s =
     \<lparr>total_articles = total_articles (statistics s),
      by_category = by_category (statistics s),
      by_sentiment = by_sentiment (statistics s),
      by_source = by_source (statistics s),
      shown_preferences = user_preferences s\<rparr>"

definition clear_articles :: "agent \<Rightarrow> agent" where
  "clear_articles s = s\<lparr>articles := [], statistics := empty_statistics\<rparr>"

subsection \<open>Notions used to state the properties\<close>

text \<open>The keyword list that \<^verbatim>\<open>SENTIMENT_KEYWORDS\<close> holds for a sentiment.\<close>

definition keywords_of :: "string \<Rightarrow> string list" where
  "keywords_of sent = (case map_of SENTIMENT_KEYWORDS sent of None \<Rightarrow> [] | Some kws \<Rightarrow> kws)"

text \<open>How many keywords of a sentiment are found in a text, each counted once.\<close>

definition keywords_found :: "string \<Rightarrow> string \<Rightarrow> int" where
  "keywords_found sent text = int (length (filter (\<lambda>kw. str_in kw text) (keywords_of sent)))"

text \<open>
  The other reading of a sentiment score, "count substring occurrences": every place
  where a keyword of the sentiment starts in the text counts.
\<close>

definition occurrences :: "string \<Rightarrow> string \<Rightarrow> int" where
  "occurrences kw text = int (length (filter (\<lambda>i. startswith kw (drop i text)) [0..<length text]))"

definition keyword_occurrences :: "string \<Rightarrow> string \<Rightarrow> int" where
  "keyword_occurrences sent text = sum_list (map (\<lambda>kw. occurrences kw text) (keywords_of sent))"

text \<open>
  The summary as the specification words it: the description up to and including its
  first period when that is longer than 20 characters.
\<close>

definition up_to_first_period :: "string \<Rightarrow> string" where
  "up_to_first_period d = takeWhile (\<lambda>c. c \<noteq> CHR ''.'') d @ ''.''"

definition spec_summary :: "article \<Rightarrow> string" where
  "spec_summary a =
     (if description a = [] then title a
      else if 20 < length (up_to_first_period (description a))
           then up_to_first_period (description a)
           else take 100 (description a) @ ''...'')"

text \<open>The catalogue entries that a category leaves: all of them for the empty category.\<close>

definition available :: "string \<Rightarrow> sample list" where
  "available cat =
     filter (\<lambda>smp. cat = [] \<or> sample_category smp = cat) (concat (replicate 3 samples))"

text \<open>The counters agree with the store.\<close>

definition consistent :: "agent \<Rightarrow> bool" where
  "consistent s =
     (total_articles (statistics s) = int (length (articles s)) \<and>
      dict_values_sum (by_category (statistics s)) = total_articles (statistics s) \<and>
      dict_values_sum (by_sentiment (statistics s)) = total_articles (statistics s) \<and>
      dict_values_sum (by_source (statistics s)) = total_articles (statistics s))"

text \<open>An article with the given texts and publish time, for concrete examples.\<close>

definition example_article :: "string \<Rightarrow> string \<Rightarrow> datetime \<Rightarrow> article" where
  "example_article t d p =
     \<lparr>title = t, description = d, url = [], source = ''Example'', published_at = p,
      category = ''General'', sentiment = ''neutral'', summary = [], keywords' = []\<rparr>"

text \<open>The list that \<^verbatim>\<open>fetch_news\<close> holds when its processing loop starts.\<close>

definition fetched_articles ::
  "world \<Rightarrow> agent \<Rightarrow> string \<Rightarrow> string \<Rightarrow> int \<Rightarrow> new_article list" where
  "fetched_articles w s query cat max_results =
     (if (if api_key s \<noteq> [] \<and> api_key s \<noteq> ''demo''
          then (case fetch_from_api w query cat max_results of None \<Rightarrow> [] | Some xs \<Rightarrow> xs)
          else []) = []
      then map constructed (generate_sample_news (now w) cat max_results)
      else (if api_key s \<noteq> [] \<and> api_key s \<noteq> ''demo''
            then (case fetch_from_api w query cat max_results of None \<Rightarrow> [] | Some xs \<Rightarrow> xs)
            else []))"

text \<open>
  Worlds for concrete runs: in \<open>offline_world t\<close> the request fails and the clock reads
  \<open>t\<close>; in \<open>live_world\<close> the request returns one article with an aware publish time, as
  \<^verbatim>\<open>_parse_date\<close> produces it from a timestamp ending in \<^verbatim>\<open>Z\<close>.
\<close>

definition offline_world :: "int \<Rightarrow> world" where
  "offline_world t =
     \<lparr>fetch_from_api = (\<lambda>query cat max_results. None), now = (\<lambda>i. t), set_order = remdups\<rparr>"

definition live_world :: world where
  "live_world =
     \<lparr>fetch_from_api =
        (\<lambda>query cat max_results.
           Some [constructed (example_article ''Live'' ''From the wire.'' (Aware 2))]),
      now = (\<lambda>i. 0), set_order = remdups\<rparr>"

text \<open>The \<open>i\<close>-th sample article as a fetch at clock reading \<open>t\<close> stores it.\<close>

definition stored_sample :: "int \<Rightarrow> nat \<Rightarrow> article" where
  "stored_sample t i =
     enrich remdups (sample_article (\<lambda>i. t) i (concat (replicate 3 samples) ! i))"

text \<open>
  \<^verbatim>\<open>NewsGenieAgent()\<close> after \<^verbatim>\<open>fetch_news(max_results=1)\<close>, after a second such call
  one minute later, and after \<^verbatim>\<open>fetch_news(max_results=2)\<close>.
\<close>

definition once_fetched :: agent where
  "once_fetched = snd (fetch_news (offline_world 0) (init None) [] [] 1)"

definition twice_fetched :: agent where
  "twice_fetched = snd (fetch_news (offline_world 60000000) once_fetched [] [] 1)"

definition two_fetched :: agent where
  "two_fetched = snd (fetch_news (offline_world 0) (init None) [] [] 2)"

text \<open>
  \<^verbatim>\<open>NewsGenieAgent("key")\<close> after a fetch that fell back to the samples and a fetch
  that reached the API.
\<close>

definition sample_then_live :: agent where
  "sample_then_live =
     snd (fetch_news live_world
            (snd (fetch_news (offline_world 0) (init (Some ''key'')) [] [] 1)) [] [] 1)"

text \<open>
  A response of two articles, the second with \<^verbatim>\<open>"description": null\<close>, and
  \<^verbatim>\<open>NewsGenieAgent("key")\<close> after \<^verbatim>\<open>fetch_news()\<close> met it.
\<close>

definition null_description_world :: world where
  "null_description_world =
     \<lparr>fetch_from_api =
        (\<lambda>query cat max_results.
           Some [constructed (example_article ''First'' ''With a text.'' (Aware 1)),
                 (constructed (example_article ''Second'' [] (Aware 2)))
                   \<lparr>new_description := None\<rparr>]),
      now = (\<lambda>i. 0), set_order = remdups\<rparr>"

definition after_null_description :: agent where
  "after_null_description =
     snd (fetch_news null_description_world (init (Some ''key'')) [] [] 20)"

section \<open>Properties\<close>

subsection \<open>Strings and dictionaries\<close>

lemma str_split_not_Nil: "str_split sep s \<noteq> []"
  by (induction s) (auto split: list.splits)

lemma hd_str_split: "hd (str_split sep s) = takeWhile (\<lambda>c. c \<noteq> sep) s"
  by (induction s) (auto split: list.splits simp: str_split_not_Nil)

lemma startswith_iff: "startswith k t \<longleftrightarrow> (\<exists>ss. t = k @ ss)"
  by (induction k t rule: startswith.induct) auto

lemma str_in_iff: "str_in k t \<longleftrightarrow> (\<exists>ps ss. t = ps @ k @ ss)"
proof (induction t)
  case Nil
  then show ?case by auto
next
  case (Cons c cs)
  show ?case
  proof
    assume "str_in k (c # cs)"
    then consider "startswith k (c # cs)" | "str_in k cs" by auto
    then show "\<exists>ps ss. c # cs = ps @ k @ ss"
    proof cases
      case 1
      then obtain ss where "c # cs = k @ ss" by (auto simp: startswith_iff)
      then have "c # cs = [] @ k @ ss" by simp
      then show ?thesis by blast
    next
      case 2
      with Cons obtain ps ss where "cs = ps @ k @ ss" by auto
      then have "c # cs = (c # ps) @ k @ ss" by simp
      then show ?thesis by blast
    qed
  next
    assume "\<exists>ps ss. c # cs = ps @ k @ ss"
    then obtain ps ss where eq: "c # cs = ps @ k @ ss" by blast
    show "str_in k (c # cs)"
    proof (cases ps)
      case Nil
      with eq have "startswith k (c # cs)" by (auto simp: startswith_iff)
      then show ?thesis by simp
    next
      case (Cons p ps')
      with eq have "cs = ps' @ k @ ss" by simp
      with Cons.IH have "str_in k cs" by blast
      then show ?thesis by simp
    qed
  qed
qed

lemma dict_get_incr:
  "dict_get (dict_incr k d) k' = dict_get d k' + (if k' = k then 1 else 0)"
  by (induction d) (auto simp: dict_get_def)

lemma dict_values_sum_incr: "dict_values_sum (dict_incr k d) = dict_values_sum d + 1"
  by (induction d) (auto simp: dict_values_sum_def)

lemma dict_get_score_keywords:
  "dict_get (score_keywords text sent kws sc) k =
     dict_get sc k + (if k = sent then int (length (filter (\<lambda>kw. str_in kw text) kws)) else 0)"
  unfolding score_keywords_def
  by (induction kws arbitrary: sc) (auto simp: dict_get_incr)

subsection \<open>Clearing\<close>

text \<open>
  C7. After \<^verbatim>\<open>clear_articles\<close> the store is empty, \<^verbatim>\<open>get_statistics\<close> returns a total
  of zero and three empty mappings, and the preferences, stored and returned, are the
  ones from before the clear.
\<close>

theorem clear_then_get_statistics:
  "get_statistics (clear_articles s) =
     \<lparr>total_articles = 0, by_category = [], by_sentiment = [], by_source = [],
      shown_preferences = user_preferences s\<rparr>
   \<and> articles (clear_articles s) = []
   \<and> user_preferences (clear_articles s) = user_preferences s"
  by (simp add: get_statistics_def clear_articles_def empty_statistics_def)

subsection \<open>Search\<close>

text \<open>\<^verbatim>\<open>lower\<close> by code points: an upper-case letter moves up by 32, all else stays.\<close>

lemma of_char_lower_char:
  "of_char (lower_char c) =
     (let n = (of_char c :: nat)
      in if (65 \<le> n \<and> n \<le> 90) \<or> (192 \<le> n \<and> n \<le> 214) \<or> (216 \<le> n \<and> n \<le> 222)
         then n + 32 else n)"
  by (auto simp: lower_char_def Let_def)

text \<open>
  C9. \<^verbatim>\<open>search_articles\<close> returns, in the order of the store, exactly the stored
  articles whose lowercased title or lowercased description has the lowercased query
  somewhere inside it: any position will do, whether or not a word starts or ends there.
  Lowercasing works character by character and turns each upper-case letter into its
  lower-case letter, \<^verbatim>\<open>A..Z\<close> into \<^verbatim>\<open>a..z\<close>, so that the match ignores case on both
  sides: the query \<^verbatim>\<open>g wIN\<close> finds the title \<^verbatim>\<open>Big Win\<close>, across the blank, and the
  query \<^verbatim>\<open>wine\<close> does not.
\<close>

theorem search_articles_substring:
  "search_articles s query =
     filter (\<lambda>a. (\<exists>ps ss. lower (title a) = ps @ lower query @ ss) \<or>
                 (\<exists>ps ss. lower (description a) = ps @ lower query @ ss))
       (articles s)
   \<and> map of_char (lower t) =
       map (\<lambda>n::nat. if (65 \<le> n \<and> n \<le> 90) \<or> (192 \<le> n \<and> n \<le> 214) \<or> (216 \<le> n \<and> n \<le> 222)
                     then n + 32 else n)
         (map of_char t)
   \<and> lower ''ABCDEFGHIJKLMNOPQRSTUVWXYZ'' = ''abcdefghijklmnopqrstuvwxyz''
   \<and> search_articles (s\<lparr>articles := [example_article ''Big Win'' ''Nothing else'' (Naive 0)]\<rparr>)
         ''g wIN'' = [example_article ''Big Win'' ''Nothing else'' (Naive 0)]
   \<and> search_articles (s\<lparr>articles := [example_article ''Big Win'' ''Nothing else'' (Naive 0)]\<rparr>)
         ''wine'' = []"
proof -
  have l1: "lower ''g wIN'' = ''g win''" "lower ''wine'' = ''wine''"
    "lower ''Big Win'' = ''big win''" "lower ''Nothing else'' = ''nothing else''"
    by code_simp+
  have e1: "str_in ''g win'' ''big win''" "\<not> str_in ''wine'' ''big win''"
    "\<not> str_in ''wine'' ''nothing else''"
    by code_simp+
  have a: "search_articles s query =
     filter (\<lambda>a. (\<exists>ps ss. lower (title a) = ps @ lower query @ ss) \<or>
                 (\<exists>ps ss. lower (description a) = ps @ lower query @ ss))
       (articles s)"
    by (simp add: search_articles_def str_in_iff Let_def)
  have b: "map of_char (lower t) =
       map (\<lambda>n::nat. if (65 \<le> n \<and> n \<le> 90) \<or> (192 \<le> n \<and> n \<le> 214) \<or> (216 \<le> n \<and> n \<le> 222)
                     then n + 32 else n)
         (map of_char t)"
    by (simp add: lower_def of_char_lower_char Let_def)
  have u: "lower ''ABCDEFGHIJKLMNOPQRSTUVWXYZ'' = ''abcdefghijklmnopqrstuvwxyz''"
    by code_simp
  have c: "search_articles (s\<lparr>articles := [example_article ''Big Win'' ''Nothing else'' (Naive 0)]\<rparr>)
         ''g wIN'' = [example_article ''Big Win'' ''Nothing else'' (Naive 0)]"
    "search_articles (s\<lparr>articles := [example_article ''Big Win'' ''Nothing else'' (Naive 0)]\<rparr>)
         ''wine'' = []"
    using e1 by (simp_all add: search_articles_def Let_def example_article_def l1)
  from a b u c show ?thesis
    by (intro conjI)
qed

subsection \<open>Preferences\<close>

text \<open>
  C3, as the code has it. An argument that is given and not empty replaces the stored
  list; an argument that is omitted or is the empty list leaves the stored list as it
  was. The store and the counters are not touched.
\<close>

theorem set_user_preferences_replaces_nonempty:
  "user_preferences (set_user_preferences s cats kws srcs) =
     \<lparr>pref_categories =
        (case cats of None \<Rightarrow> pref_categories (user_preferences s)
         | Some xs \<Rightarrow> if xs = [] then pref_categories (user_preferences s) else xs),
      pref_keywords =
        (case kws of None \<Rightarrow> pref_keywords (user_preferences s)
         | Some xs \<Rightarrow> if xs = [] then pref_keywords (user_preferences s) else xs),
      pref_sources =
        (case srcs of None \<Rightarrow> pref_sources (user_preferences s)
         | Some xs \<Rightarrow> if xs = [] then pref_sources (user_preferences s) else xs)\<rparr>
   \<and> articles (set_user_preferences s cats kws srcs) = articles s
   \<and> statistics (set_user_preferences s cats kws srcs) = statistics s"
  by (cases cats; cases kws; cases srcs) (simp_all add: set_user_preferences_def Let_def)

text \<open>
  Passing the empty list for the categories of an agent that prefers Sports leaves
  Sports in place: the empty list does not replace.
\<close>

theorem set_user_preferences_empty_list_counterexample:
  "pref_categories (user_preferences
     (set_user_preferences
        ((init None)\<lparr>user_preferences :=
            \<lparr>pref_categories = [''Sports''], pref_keywords = [], pref_sources = []\<rparr>\<rparr>)
        (Some []) None None)) = [''Sports'']"
  by (simp add: set_user_preferences_def init_def)

subsection \<open>Summary\<close>

text \<open>
  C4, as the code has it. The summary is the title when the description is empty.
  Otherwise the candidate is the text before the first period (all of the description
  when it has none), without the white space at its two ends, followed by a period; the
  summary is the candidate when that is longer than 20 characters, and else the first
  100 characters of the description followed by three dots. The description
  \<^verbatim>\<open>Hello world. More text.\<close> gives the second form.
\<close>

theorem generate_summary_stripped_sentence:
  "generate_summary a =
     (if description a = [] then title a
      else if 20 < length (strip (takeWhile (\<lambda>c. c \<noteq> CHR ''.'') (description a)) @ ''.'')
           then strip (takeWhile (\<lambda>c. c \<noteq> CHR ''.'') (description a)) @ ''.''
           else take 100 (description a) @ ''...'')
   \<and> generate_summary (a\<lparr>description := ''Hello world. More text.''\<rparr>) =
       ''Hello world. More text....''"
proof
  show "generate_summary a =
     (if description a = [] then title a
      else if 20 < length (strip (takeWhile (\<lambda>c. c \<noteq> CHR ''.'') (description a)) @ ''.'')
           then strip (takeWhile (\<lambda>c. c \<noteq> CHR ''.'') (description a)) @ ''.''
           else take 100 (description a) @ ''...'')"
    by (simp add: generate_summary_def hd_str_split Let_def)
  have "strip ''Hello world'' = ''Hello world''" by code_simp
  then show "generate_summary (a\<lparr>description := ''Hello world. More text.''\<rparr>) =
       ''Hello world. More text....''"
    by (simp add: generate_summary_def Let_def)
qed

text \<open>
  A description that starts with white space: the code drops the two blanks, while the
  description up to and including its first period keeps them.
\<close>

theorem generate_summary_counterexample:
  "generate_summary
     (example_article ''Markets'' ''  Stocks rose sharply on Monday. More text.'' (Naive 0))
     = ''Stocks rose sharply on Monday.''
   \<and> spec_summary
     (example_article ''Markets'' ''  Stocks rose sharply on Monday. More text.'' (Naive 0))
     = ''  Stocks rose sharply on Monday.''"
  by code_simp

subsection \<open>Sentiment\<close>

lemma sentiment_scores:
  "dict_get (fold (\<lambda>(sent, kws) sc. score_keywords text sent kws sc) SENTIMENT_KEYWORDS
               [(''positive'', 0), (''negative'', 0), (''neutral'', 0)]) ''positive''
     = keywords_found ''positive'' text"
  "dict_get (fold (\<lambda>(sent, kws) sc. score_keywords text sent kws sc) SENTIMENT_KEYWORDS
               [(''positive'', 0), (''negative'', 0), (''neutral'', 0)]) ''negative''
     = keywords_found ''negative'' text"
  by (simp_all add: SENTIMENT_KEYWORDS_def keywords_found_def keywords_of_def
        dict_get_score_keywords)
     (simp_all add: dict_get_def)

text \<open>
  C2, as the code has it. Over the lowercased title, a blank and the description, the
  score of a sentiment is the number of its keywords that are found in the text, each
  keyword counted once however often it occurs. The label is positive exactly when the
  positive score is the greater, negative exactly when the negative score is the
  greater, and neutral when they are equal; a text with two positive keywords and one
  negative keyword is positive.
\<close>

theorem analyze_sentiment_keywords_found:
  "analyze_sentiment a =
     (let text = lower (title a @ '' '' @ description a);
          p = keywords_found ''positive'' text;
          n = keywords_found ''negative'' text
      in if n < p then ''positive'' else if p < n then ''negative'' else ''neutral'')
   \<and> (keywords_found ''positive'' (lower (title a @ '' '' @ description a)) = 2 \<and>
       keywords_found ''negative'' (lower (title a @ '' '' @ description a)) = 1
       \<longrightarrow> analyze_sentiment a = ''positive'')"
  by (simp add: analyze_sentiment_def Let_def sentiment_scores)

theorem analyze_sentiment_keywords_found_witness:
  "keywords_found ''positive'' (lower (''Growth and profit'' @ '' '' @ ''One loss'')) = 2
   \<and> keywords_found ''negative'' (lower (''Growth and profit'' @ '' '' @ ''One loss'')) = 1
   \<and> analyze_sentiment (example_article ''Growth and profit'' ''One loss'' (Naive 0)) = ''positive''"
proof -
  have p: "keywords_found ''positive'' (lower (''Growth and profit'' @ '' '' @ ''One loss'')) = 2"
    by code_simp
  have n: "keywords_found ''negative'' (lower (''Growth and profit'' @ '' '' @ ''One loss'')) = 1"
    by code_simp
  show ?thesis
    using p n
      analyze_sentiment_keywords_found
        [of "example_article ''Growth and profit'' ''One loss'' (Naive 0)"]
    by (simp add: example_article_def)
qed

text \<open>
  The positive keyword \<^verbatim>\<open>win\<close> occurs twice and the negative keyword \<^verbatim>\<open>loss\<close> once:
  two positive occurrences against one negative occurrence, and the label is neutral.
\<close>

theorem analyze_sentiment_occurrences_counterexample:
  "keyword_occurrences ''positive'' (lower (''Win after win'' @ '' '' @ ''One loss'')) = 2
   \<and> keyword_occurrences ''negative'' (lower (''Win after win'' @ '' '' @ ''One loss'')) = 1
   \<and> analyze_sentiment (example_article ''Win after win'' ''One loss'' (Naive 0)) = ''neutral''"
  by code_simp

subsection \<open>Keywords\<close>

text \<open>
  C6. Whatever order the set is iterated in, \<^verbatim>\<open>_extract_keywords\<close> returns at most five
  tokens, each of them longer than four characters and none of them a stop word.
\<close>

theorem extract_keywords_bounds:
  assumes "set_iteration order"
  shows "length (extract_keywords order a) \<le> 5 \<and>
         (\<forall>w \<in> set (extract_keywords order a). 4 < length w \<and> w \<notin> common_words)"
proof
  show "length (extract_keywords order a) \<le> 5"
    by (simp add: extract_keywords_def Let_def)
  show "\<forall>w \<in> set (extract_keywords order a). 4 < length w \<and> w \<notin> common_words"
  proof
    fix w assume "w \<in> set (extract_keywords order a)"
    then have "w \<in> set (order (filter (\<lambda>w. 4 < length w \<and> w \<notin> common_words)
                  (findall_words (lower (title a @ '' '' @ description a)))))"
      by (auto simp: extract_keywords_def Let_def dest: in_set_takeD)
    with assms show "4 < length w \<and> w \<notin> common_words"
      by (simp add: set_iteration_def)
  qed
qed

theorem extract_keywords_bounds_witness:
  "set_iteration remdups \<and>
   extract_keywords remdups
     (example_article ''The state of the art''
        ''A report from the state capital on water and water'' (Naive 0))
     = [''report'', ''state'', ''capital'', ''water'']"
proof -
  have h: "set_iteration remdups" by (simp add: set_iteration_def)
  have e: "extract_keywords remdups
     (example_article ''The state of the art''
        ''A report from the state capital on water and water'' (Naive 0))
     = [''report'', ''state'', ''capital'', ''water'']" by code_simp
  show ?thesis
    using h e
      extract_keywords_bounds
        [OF h, of "example_article ''The state of the art''
                     ''A report from the state capital on water and water'' (Naive 0)"]
    by simp
qed

subsection \<open>The sample generator\<close>

lemma sample_loop_eq:
  "sample_loop clock cat cnt xs acc =
     (if cnt \<le> int (length acc) then acc
      else acc @ take (nat cnt - length acc)
             (map (\<lambda>(i, smp). sample_article clock i smp)
                (filter (\<lambda>(i, smp). cat = [] \<or> sample_category smp = cat) xs)))"
proof (induction xs arbitrary: acc)
  case Nil
  then show ?case by simp
next
  case (Cons p xs)
  obtain i smp where p: "p = (i, smp)" by (cases p)
  show ?case
  proof (cases "cnt \<le> int (length acc)")
    case True
    then show ?thesis by (simp add: p)
  next
    case False
    then have pos: "nat cnt - length acc = Suc (nat cnt - Suc (length acc))" by linarith
    show ?thesis
    proof (cases "cat \<noteq> [] \<and> sample_category smp \<noteq> cat")
      case True
      with False show ?thesis by (simp add: p Cons.IH)
    next
      case keep: False
      have "sample_loop clock cat cnt (p # xs) acc =
              sample_loop clock cat cnt xs (acc @ [sample_article clock i smp])"
        using False keep by (auto simp: p)
      also have "\<dots> = acc @ take (nat cnt - length acc)
             (map (\<lambda>(i, smp). sample_article clock i smp)
                (filter (\<lambda>(i, smp). cat = [] \<or> sample_category smp = cat) (p # xs)))"
        using False keep pos by (auto simp: p Cons.IH)
      finally show ?thesis using False by simp
    qed
  qed
qed

lemma generate_sample_news_eq:
  "generate_sample_news clock cat cnt =
     take (nat cnt)
       (map (\<lambda>(i, smp). sample_article clock i smp)
          (filter (\<lambda>(i, smp). cat = [] \<or> sample_category smp = cat)
             (enumerate 0 (concat (replicate 3 samples)))))"
  by (simp add: generate_sample_news_def sample_loop_eq slice_to_def)

lemma filter_enumerate_snd:
  "map snd (filter (\<lambda>(i, x). P x) (enumerate n xs)) = filter P xs"
  by (induction xs arbitrary: n) auto

lemma length_filter_enumerate:
  "length (filter (\<lambda>(i, x). P x) (enumerate n xs)) = length (filter P xs)"
  using filter_enumerate_snd [of P n xs] by (metis length_map)

text \<open>
  C5, as the code has it. The generator returns min(max(count, 0), available) articles,
  where available counts the entries of the tripled catalogue that the category leaves:
  a negative count gives no article. When a category is given, every returned article
  has it. The generator is a total function: it does not fail.
\<close>

theorem generate_sample_news_count:
  "int (length (generate_sample_news clock cat cnt)) =
     min (max cnt 0) (int (length (available cat)))
   \<and> (\<forall>a \<in> set (generate_sample_news clock cat cnt). cat \<noteq> [] \<longrightarrow> category a = cat)"
proof
  have "length (generate_sample_news clock cat cnt) = min (nat cnt) (length (available cat))"
    by (simp add: generate_sample_news_eq available_def length_filter_enumerate min.commute)
  then show "int (length (generate_sample_news clock cat cnt)) =
               min (max cnt 0) (int (length (available cat)))"
    by linarith
  show "\<forall>a \<in> set (generate_sample_news clock cat cnt). cat \<noteq> [] \<longrightarrow> category a = cat"
    by (auto simp: generate_sample_news_eq sample_article_def dest!: in_set_takeD)
qed

theorem generate_sample_news_count_witness:
  "int (length (generate_sample_news (\<lambda>i. 0) ''Sports'' 4)) = 4
   \<and> map category (generate_sample_news (\<lambda>i. 0) ''Sports'' 4) =
       [''Sports'', ''Sports'', ''Sports'', ''Sports'']
   \<and> length (available ''Sports'') = 6"
proof -
  have a: "length (available ''Sports'') = 6" by code_simp
  have c: "map category (generate_sample_news (\<lambda>i. 0) ''Sports'' 4) =
             [''Sports'', ''Sports'', ''Sports'', ''Sports'']"
    by code_simp
  show ?thesis
    using a c generate_sample_news_count [of "\<lambda>i. 0" "''Sports''" 4] by simp
qed

text \<open>
  A count of -1: the generator returns no article, and min(-1, available) is -1.
\<close>

theorem generate_sample_news_negative_counterexample:
  "length (generate_sample_news (\<lambda>i. 0) [] (- 1)) = 0
   \<and> min (- 1) (int (length (available []))) = - 1"
  by code_simp

subsection \<open>Sorting by publish time\<close>

lemma length_newest_first: "length (newest_first xs) = length xs"
  by (simp add: newest_first_def)

lemma mset_newest_first: "mset (newest_first xs) = mset xs"
  by (simp add: newest_first_def)

lemma sorted_newest_first:
  "sorted_wrt (\<lambda>a b. instant (published_at b) \<le> instant (published_at a)) (newest_first xs)"
proof -
  have "sorted (map (\<lambda>a. instant (published_at a))
                 (sort_key (\<lambda>a. instant (published_at a)) (rev xs)))"
    by (rule sorted_sort_key)
  then have "sorted_wrt (\<lambda>a b. instant (published_at a) \<le> instant (published_at b))
                 (sort_key (\<lambda>a. instant (published_at a)) (rev xs))"
    by (simp add: sorted_map)
  then show ?thesis
    by (simp add: newest_first_def sorted_wrt_rev)
qed

lemma stable_newest_first:
  "filter (\<lambda>a. instant (published_at a) = t) (newest_first xs) =
   filter (\<lambda>a. instant (published_at a) = t) xs"
proof -
  have "filter (\<lambda>a. instant (published_at a) = t) (newest_first xs) =
        rev (filter (\<lambda>a. instant (published_at a) = t)
               (sort_key (\<lambda>a. instant (published_at a)) (rev xs)))"
    by (simp add: newest_first_def rev_filter)
  also have "\<dots> = rev (filter (\<lambda>a. instant (published_at a) = t) (rev xs))"
    by (simp only: sort_key_stable)
  also have "\<dots> = filter (\<lambda>a. instant (published_at a) = t) xs"
    by (simp add: rev_filter)
  finally show ?thesis .
qed

lemma mixed_times_filter: "mixed_times (filter P xs) \<Longrightarrow> mixed_times xs"
  by (auto simp: mixed_times_def list_ex_iff)

subsection \<open>What the personalized query does to the agent\<close>

text \<open>
  With no preference set, \<^verbatim>\<open>filtered\<close> is still the agent's own list when it is
  sorted: the store itself is put in the sorted order.
\<close>

lemma get_personalized_news_unfiltered:
  assumes "pref_categories (user_preferences s) = []"
    and "pref_keywords (user_preferences s) = []"
    and "pref_sources (user_preferences s) = []"
  shows "get_personalized_news s lim =
           (if mixed_times (articles s) then Inl TypeError
            else Inr (slice_to (newest_first (articles s)) lim,
                      s\<lparr>articles := newest_first (articles s)\<rparr>))"
  using assms by (simp add: get_personalized_news_def sort_reverse_def Let_def)

text \<open>With some preference set, a new list is sorted and the agent is left as it was.\<close>

lemma get_personalized_news_filtered:
  assumes "pref_categories (user_preferences s) \<noteq> [] \<or> pref_keywords (user_preferences s) \<noteq> []
           \<or> pref_sources (user_preferences s) \<noteq> []"
    and "get_personalized_news s lim = Inr (result, s')"
  shows "s' = s"
  using assms
  by (auto simp: get_personalized_news_def Let_def split: sum.splits if_splits)

lemma get_personalized_news_frame:
  assumes "get_personalized_news s lim = Inr (result, s')"
  shows "length (articles s') = length (articles s) \<and> statistics s' = statistics s
         \<and> user_preferences s' = user_preferences s \<and> api_key s' = api_key s"
proof (cases "pref_categories (user_preferences s) \<noteq> [] \<or> pref_keywords (user_preferences s) \<noteq> []
           \<or> pref_sources (user_preferences s) \<noteq> []")
  case True
  from get_personalized_news_filtered [OF True assms] show ?thesis by simp
next
  case False
  with assms show ?thesis
    by (auto simp: get_personalized_news_unfiltered length_newest_first split: if_splits)
qed

lemma get_personalized_news_raises:
  assumes "get_personalized_news s lim = Inl e"
  shows "mixed_times (articles s)"
  using assms unfolding get_personalized_news_def Let_def sort_reverse_def
  by (auto split: if_splits dest!: mixed_times_filter)

subsection \<open>Fetching\<close>

lemma published_at_enrich: "published_at (enrich order a) = published_at a"
  by (simp add: enrich_def Let_def)

text \<open>Processing resets the derived fields, whatever they held before.\<close>

lemma enrich_described_constructed:
  "enrich order (described (constructed a) (description a)) = enrich order a"
  by (cases a)
     (simp add: enrich_def described_def constructed_def analyze_sentiment_def
        generate_summary_def extract_keywords_def Let_def)

text \<open>On articles that all have a description the loop runs to its end.\<close>

lemma process_articles_constructed:
  "process_articles order (map constructed xs) st =
     (Inr (map (enrich order) xs), fold (\<lambda>a. count_article (enrich order a)) xs st)"
proof (induction xs arbitrary: st)
  case Nil
  then show ?case by simp
next
  case (Cons a xs)
  have "new_description (constructed a) = Some (description a)"
    by (simp add: constructed_def)
  then show ?case
    by (simp add: Cons.IH enrich_described_constructed Let_def)
qed

lemma fetch_news_unfold:
  "fetch_news w s query cat max_results =
     (case process_articles (set_order w) (fetched_articles w s query cat max_results)
             (statistics s) of
        (r, st) \<Rightarrow>
          (case r of
             Inl e \<Rightarrow> (Inl e, s\<lparr>statistics := st\<rparr>)
           | Inr enriched \<Rightarrow>
               (Inr enriched, s\<lparr>articles := articles s @ enriched, statistics := st\<rparr>)))"
  by (simp only: fetch_news_def Let_def fetched_articles_def)

lemma fetch_news_constructed:
  assumes "fetched_articles w s query cat max_results = map constructed xs"
  shows "fetch_news w s query cat max_results =
     (Inr (map (enrich (set_order w)) xs),
      s\<lparr>articles := articles s @ map (enrich (set_order w)) xs,
        statistics := fold (\<lambda>a. count_article (enrich (set_order w) a)) xs (statistics s)\<rparr>)"
  by (simp add: fetch_news_unfold assms process_articles_constructed)

lemma fetch_news_frame:
  "user_preferences (snd (fetch_news w s query cat max_results)) = user_preferences s"
  "api_key (snd (fetch_news w s query cat max_results)) = api_key s"
  by (simp_all add: fetch_news_unfold split: prod.splits sum.splits)

lemma process_articles_counts:
  "process_articles order xs st = (Inr ys, st') \<Longrightarrow>
     total_articles st' = total_articles st + int (length ys) \<and>
     dict_values_sum (by_category st') = dict_values_sum (by_category st) + int (length ys) \<and>
     dict_values_sum (by_sentiment st') = dict_values_sum (by_sentiment st) + int (length ys) \<and>
     dict_values_sum (by_source st') = dict_values_sum (by_source st) + int (length ys)"
proof (induction xs arbitrary: st ys st')
  case Nil
  then show ?case by simp
next
  case (Cons n xs)
  from Cons.prems obtain d where d: "new_description n = Some d"
    by (cases "new_description n") auto
  obtain r st'' where rest:
    "process_articles order xs (count_article (enrich order (described n d)) st) = (r, st'')"
    by (cases "process_articles order xs (count_article (enrich order (described n d)) st)")
  with Cons.prems d obtain ys' where
    "r = Inr ys'" "ys = enrich order (described n d) # ys'" "st' = st''"
    by (cases r) (auto simp: Let_def)
  with Cons.IH [of "count_article (enrich order (described n d)) st" ys' st''] rest show ?case
    by (simp add: count_article_def dict_values_sum_incr)
qed

subsection \<open>Concrete runs\<close>

lemma generate_one_sample:
  "generate_sample_news (\<lambda>i. t) [] 1 = [sample_article (\<lambda>i. t) 0 (concat (replicate 3 samples) ! 0)]"
  by (simp add: generate_sample_news_def samples_def slice_to_def eval_nat_numeral)

lemma generate_two_samples:
  "generate_sample_news (\<lambda>i. t) [] 2 =
     [sample_article (\<lambda>i. t) 0 (concat (replicate 3 samples) ! 0),
      sample_article (\<lambda>i. t) 1 (concat (replicate 3 samples) ! 1)]"
  by (simp add: generate_sample_news_def samples_def slice_to_def eval_nat_numeral)

lemma offline_fetch:
  "fetched_articles (offline_world t) s query cat max_results =
     map constructed (generate_sample_news (\<lambda>i. t) cat max_results)"
  by (simp add: fetched_articles_def offline_world_def)

lemma offline_world_sel:
  "set_order (offline_world t) = remdups" "now (offline_world t) = (\<lambda>i. t)"
  by (simp_all add: offline_world_def)

lemma live_fetch:
  assumes "api_key s = ''key''"
  shows "fetched_articles live_world s query cat max_results =
           map constructed [example_article ''Live'' ''From the wire.'' (Aware 2)]"
  using assms by (simp add: fetched_articles_def live_world_def)

lemma articles_once_fetched: "articles once_fetched = [stored_sample 0 0]"
  by (simp add: once_fetched_def fetch_news_constructed [OF offline_fetch] generate_one_sample
        init_def stored_sample_def offline_world_sel)

lemma articles_twice_fetched:
  "articles twice_fetched = [stored_sample 0 0, stored_sample 60000000 0]"
  by (simp add: twice_fetched_def fetch_news_constructed [OF offline_fetch] generate_one_sample
        articles_once_fetched stored_sample_def offline_world_sel)

lemma articles_two_fetched: "articles two_fetched = [stored_sample 0 0, stored_sample 0 1]"
  by (simp add: two_fetched_def fetch_news_constructed [OF offline_fetch] generate_two_samples
        init_def stored_sample_def offline_world_sel)

lemma articles_sample_then_live:
  "articles sample_then_live =
     [stored_sample 0 0, enrich remdups (example_article ''Live'' ''From the wire.'' (Aware 2))]"
proof -
  have k: "api_key (snd (fetch_news (offline_world 0) (init (Some ''key'')) [] [] 1)) = ''key''"
    by (simp add: fetch_news_frame init_def)
  have a: "articles (snd (fetch_news (offline_world 0) (init (Some ''key'')) [] [] 1)) =
             [stored_sample 0 0]"
    by (simp add: fetch_news_constructed [OF offline_fetch] generate_one_sample init_def
          stored_sample_def offline_world_sel)
  have o: "set_order live_world = remdups"
    by (simp add: live_world_def)
  show ?thesis
    by (simp add: sample_then_live_def fetch_news_constructed [OF live_fetch [OF k]] a o)
qed

lemma published_at_stored_sample:
  "published_at (stored_sample t i) = Naive (t - int i * 3600000000)"
  by (simp add: stored_sample_def published_at_enrich sample_article_def)

lemma no_preferences_examples:
  "user_preferences once_fetched = \<lparr>pref_categories = [], pref_keywords = [], pref_sources = []\<rparr>"
  "user_preferences twice_fetched = \<lparr>pref_categories = [], pref_keywords = [], pref_sources = []\<rparr>"
  "user_preferences two_fetched = \<lparr>pref_categories = [], pref_keywords = [], pref_sources = []\<rparr>"
  "user_preferences sample_then_live = \<lparr>pref_categories = [], pref_keywords = [], pref_sources = []\<rparr>"
  by (simp_all add: once_fetched_def twice_fetched_def two_fetched_def sample_then_live_def
        fetch_news_frame init_def)

lemma mixed_sample_then_live: "mixed_times (articles sample_then_live)"
  by (simp add: articles_sample_then_live mixed_times_def published_at_stored_sample
        published_at_enrich example_article_def)

lemma personalized_sample_then_live:
  "get_personalized_news sample_then_live lim = Inl TypeError"
  using mixed_sample_then_live
  by (simp add: get_personalized_news_unfiltered no_preferences_examples)

lemma two_fetched_sorted:
  "newest_first (articles two_fetched) = [stored_sample 0 0, stored_sample 0 1]"
  "\<not> mixed_times (articles two_fetched)"
  by (simp_all add: articles_two_fetched newest_first_def mixed_times_def
        published_at_stored_sample)

subsection \<open>The personalized query without preferences\<close>

text \<open>
  C8, as the code has it. When the three preference lists are empty and the stored
  publish times are all naive or all aware, \<^verbatim>\<open>get_personalized_news\<close> returns the slice
  \<^verbatim>\<open>[:limit]\<close> of the stored articles sorted by publish time, newest first: the sorted
  list holds exactly the stored articles, no article stands before a newer one, and
  articles of the same time keep the order of the store. For a limit of zero or more the
  slice is the first \<open>limit\<close> articles; for a negative limit it is the sorted list
  without its last \<open>-limit\<close> articles.
\<close>

theorem get_personalized_news_no_preferences:
  assumes "pref_categories (user_preferences s) = []"
    and "pref_keywords (user_preferences s) = []"
    and "pref_sources (user_preferences s) = []"
    and "\<not> mixed_times (articles s)"
  shows "(\<exists>s'. get_personalized_news s lim = Inr (slice_to (newest_first (articles s)) lim, s'))
       \<and> (0 \<le> lim \<longrightarrow>
            slice_to (newest_first (articles s)) lim = take (nat lim) (newest_first (articles s)))
       \<and> (lim < 0 \<longrightarrow>
            slice_to (newest_first (articles s)) lim =
              take (length (articles s) - nat (- lim)) (newest_first (articles s)))
       \<and> mset (newest_first (articles s)) = mset (articles s)
       \<and> sorted_wrt (\<lambda>a b. instant (published_at b) \<le> instant (published_at a))
            (newest_first (articles s))
       \<and> (\<forall>t. filter (\<lambda>a. instant (published_at a) = t) (newest_first (articles s)) =
                filter (\<lambda>a. instant (published_at a) = t) (articles s))"
proof -
  have "nat (int (length (articles s)) + lim) = length (articles s) - nat (- lim)" if "lim < 0"
    using that by linarith
  then show ?thesis
    using assms
    by (simp add: get_personalized_news_unfiltered slice_to_def mset_newest_first
          sorted_newest_first stable_newest_first length_newest_first)
qed

theorem get_personalized_news_no_preferences_witness:
  "\<not> mixed_times (articles two_fetched)
   \<and> user_preferences two_fetched =
       \<lparr>pref_categories = [], pref_keywords = [], pref_sources = []\<rparr>
   \<and> articles two_fetched = [stored_sample 0 0, stored_sample 0 1]
   \<and> newest_first (articles two_fetched) = [stored_sample 0 0, stored_sample 0 1]
   \<and> (\<exists>s'. get_personalized_news two_fetched 1 = Inr ([stored_sample 0 0], s'))"
proof -
  have p: "pref_categories (user_preferences two_fetched) = []"
     "pref_keywords (user_preferences two_fetched) = []"
     "pref_sources (user_preferences two_fetched) = []"
    by (simp_all add: no_preferences_examples)
  from get_personalized_news_no_preferences [OF p two_fetched_sorted(2), of 1]
  obtain s' where
    g: "get_personalized_news two_fetched 1 =
          Inr (slice_to (newest_first (articles two_fetched)) 1, s')"
    and t: "slice_to (newest_first (articles two_fetched)) 1 =
          take (nat 1) (newest_first (articles two_fetched))"
    by auto
  from g t have "get_personalized_news two_fetched 1 = Inr ([stored_sample 0 0], s')"
    by (simp add: two_fetched_sorted)
  then have "\<exists>s'. get_personalized_news two_fetched 1 = Inr ([stored_sample 0 0], s')"
    by blast
  then show ?thesis
    using two_fetched_sorted
    by (simp add: no_preferences_examples articles_two_fetched)
qed

text \<open>
  Two runs where the claim as stated fails. An agent with an API key whose first fetch
  fell back to a sample (naive time) and whose second fetch reached the API (aware time):
  the query raises \<^verbatim>\<open>TypeError\<close> and returns nothing. An agent holding two samples,
  asked with the limit -1: the query returns one article.
\<close>

theorem get_personalized_news_counterexample:
  "get_personalized_news sample_then_live 10 = Inl TypeError
   \<and> articles two_fetched = [stored_sample 0 0, stored_sample 0 1]
   \<and> get_personalized_news two_fetched (- 1) =
       Inr ([stored_sample 0 0], two_fetched\<lparr>articles := [stored_sample 0 0, stored_sample 0 1]\<rparr>)"
  using two_fetched_sorted
  by (simp add: personalized_sample_then_live get_personalized_news_unfiltered
        no_preferences_examples slice_to_def articles_two_fetched)

subsection \<open>The personalized query and the store\<close>

text \<open>
  C1, at an input where the code departs from it. \<^verbatim>\<open>NewsGenieAgent()\<close>, then
  \<^verbatim>\<open>fetch_news(max_results=1)\<close> twice, one minute apart: no preference is set, the store
  holds the earlier article first. \<^verbatim>\<open>get_personalized_news(10)\<close> returns the two
  articles newest first and leaves the store in that order too: the insertion order of
  the store is lost.
\<close>

theorem get_personalized_news_reorders_store:
  "user_preferences twice_fetched =
     \<lparr>pref_categories = [], pref_keywords = [], pref_sources = []\<rparr>
   \<and> articles twice_fetched = [stored_sample 0 0, stored_sample 60000000 0]
   \<and> get_personalized_news twice_fetched 10 =
       Inr ([stored_sample 60000000 0, stored_sample 0 0],
            twice_fetched\<lparr>articles := [stored_sample 60000000 0, stored_sample 0 0]\<rparr>)
   \<and> stored_sample 60000000 0 \<noteq> stored_sample 0 0"
proof -
  have n: "newest_first [stored_sample 0 0, stored_sample 60000000 0] =
             [stored_sample 60000000 0, stored_sample 0 0]"
    by (simp add: newest_first_def published_at_stored_sample)
  have m: "\<not> mixed_times [stored_sample 0 0, stored_sample 60000000 0]"
    by (simp add: mixed_times_def published_at_stored_sample)
  have d: "stored_sample 60000000 0 \<noteq> stored_sample 0 0"
  proof
    assume "stored_sample 60000000 0 = stored_sample 0 0"
    then have "published_at (stored_sample 60000000 0) = published_at (stored_sample 0 0)"
      by simp
    then show False by (simp add: published_at_stored_sample)
  qed
  show ?thesis
    using m d
    by (simp add: get_personalized_news_unfiltered no_preferences_examples
          articles_twice_fetched n slice_to_def)
qed

subsection \<open>The counters and the store\<close>

text \<open>
  The counters of a new agent agree with its empty store, and every operation that
  returns keeps them in agreement with the store.
\<close>

lemma consistent_init: "consistent (init key)"
  by (simp add: consistent_def init_def empty_statistics_def dict_values_sum_def)

lemma consistent_fetch_news:
  assumes "consistent s"
    and "fetch_news w s query cat max_results = (Inr enriched, s')"
  shows "consistent s'"
proof -
  obtain r st where p:
    "process_articles (set_order w) (fetched_articles w s query cat max_results) (statistics s)
       = (r, st)"
    by (cases "process_articles (set_order w) (fetched_articles w s query cat max_results)
                 (statistics s)")
  with assms(2) have r: "r = Inr enriched"
    and s': "s' = s\<lparr>articles := articles s @ enriched, statistics := st\<rparr>"
    by (auto simp: fetch_news_unfold split: sum.splits)
  from process_articles_counts [OF p [unfolded r]] assms(1) show ?thesis
    by (simp add: s' consistent_def)
qed

lemma consistent_set_user_preferences:
  "consistent s \<Longrightarrow> consistent (set_user_preferences s cats kws srcs)"
  by (simp add: consistent_def set_user_preferences_def Let_def)

lemma consistent_get_personalized_news:
  assumes "consistent s" and "get_personalized_news s lim = Inr (result, s')"
  shows "consistent s'"
  using get_personalized_news_frame [OF assms(2)] assms(1) by (simp add: consistent_def)

lemma consistent_clear_articles: "consistent (clear_articles s)"
  by (simp add: consistent_def clear_articles_def empty_statistics_def dict_values_sum_def)

text \<open>
  C10, at an input where the code departs from it. \<^verbatim>\<open>NewsGenieAgent("key")\<close> has
  counters that agree with its empty store. \<^verbatim>\<open>fetch_news()\<close> then receives two articles
  from the API, the second with \<^verbatim>\<open>"description": null\<close>: the first article is counted,
  the second makes \<^verbatim>\<open>_analyze_sentiment\<close> raise \<^verbatim>\<open>TypeError\<close>, and the call ends before
  \<^verbatim>\<open>self.articles.extend\<close>. The total counter is 1, the store is empty: the counters no
  longer agree with the store.
\<close>

theorem fetch_news_null_description_breaks_counters:
  "consistent (init (Some ''key''))
   \<and> fst (fetch_news null_description_world (init (Some ''key'')) [] [] 20) = Inl TypeError
   \<and> articles after_null_description = []
   \<and> total_articles (statistics after_null_description) = 1
   \<and> \<not> consistent after_null_description"
proof -
  have f: "fetched_articles null_description_world (init (Some ''key'')) [] [] 20 =
             [constructed (example_article ''First'' ''With a text.'' (Aware 1)),
              (constructed (example_article ''Second'' [] (Aware 2)))\<lparr>new_description := None\<rparr>]"
    by (simp add: fetched_articles_def null_description_world_def init_def)
  have d: "new_description (constructed (example_article ''First'' ''With a text.'' (Aware 1))) =
             Some ''With a text.''"
    by (simp add: constructed_def example_article_def)
  have r: "fetch_news null_description_world (init (Some ''key'')) [] [] 20 =
             (Inl TypeError,
              (init (Some ''key''))
                \<lparr>statistics :=
                   count_article
                     (enrich (set_order null_description_world)
                        (described
                           (constructed (example_article ''First'' ''With a text.'' (Aware 1)))
                           ''With a text.''))
                     (statistics (init (Some ''key'')))\<rparr>)"
    by (simp add: fetch_news_unfold f d)
  have a: "articles after_null_description = []"
    unfolding after_null_description_def r by (simp add: init_def)
  have t: "total_articles (statistics after_null_description) = 1"
    unfolding after_null_description_def r
    by (simp add: init_def count_article_def empty_statistics_def)
  from a t have "\<not> consistent after_null_description"
    by (simp add: consistent_def)
  with a t show ?thesis
    by (simp add: r consistent_init)
qed

end
